theory Spec2Isabelle
  imports Main "HOL-Library.Sublist"
begin

section \<open>WebDAV over a flat object store: the handler of src/handlers/webdavHandler.ts\<close>

text \<open>
  The handler translates each WebDAV verb into calls of an object store (an R2 bucket)
  that knows keys only. The development follows the file from the leaves up: the values
  of the platform (requests, responses), the store binding, the helpers the handler
  imports, and then the handlers themselves, one definition per source function.

  Conventions of the embedding:
  \<^item> an awaited call that may throw returns \<open>string + 'a\<close>, \<open>Inl\<close> carrying
    \<open>err.message\<close>;
  \<^item> a handler returns what it answers (or the message of the exception that escapes
    it) together with the bucket as its store calls left it;
  \<^item> \<open>new Response(body, init)\<close> is construction of a record, except where the
    platform refuses it: a body together with a null body status is a \<open>TypeError\<close>
    (see \<open>new_Response\<close>);
  \<^item> a body produced by a template of \<open>utils/templates\<close> or by
    \<open>generatePropfindResponse\<close> is kept as the template applied to its arguments,
    since rendering is not part of the handler.
\<close>

subsection \<open>Strings\<close>

text \<open>\<open>a || b\<close> on a possibly missing string: \<open>null\<close> and the empty string are falsy.\<close>

definition or_else :: "string option \<Rightarrow> string \<Rightarrow> string" where
  "or_else a b = (case a of None \<Rightarrow> b | Some s \<Rightarrow> if s = [] then b else s)"

text \<open>\<open>s.endsWith(t)\<close> and \<open>s.includes(t)\<close>.\<close>

definition endsWith :: "string \<Rightarrow> string \<Rightarrow> bool" where
  "endsWith s t = suffix t s"

definition str_includes :: "string \<Rightarrow> string \<Rightarrow> bool" where
  "str_includes s t = sublist t s"

text \<open>\<open>s.split("/").pop()\<close>: what follows the last slash (all of \<open>s\<close> without one).\<close>

definition split_pop :: "string \<Rightarrow> string" where
  "split_pop s = rev (takeWhile (\<lambda>c. c \<noteq> CHR ''/'') (rev s))"

text \<open>\<open>xs.join(sep)\<close>.\<close>

fun join :: "string \<Rightarrow> string list \<Rightarrow> string" where
  "join sep [] = []"
| "join sep [x] = x"
| "join sep (x # y # ys) = x @ sep @ join sep (y # ys)"

text \<open>\<open>n.toString()\<close> for a size.\<close>

fun toString :: "nat \<Rightarrow> string" where
  "toString n =
     (if n < 10 then [char_of (48 + n)]
      else toString (n div 10) @ [char_of (48 + n mod 10)])"

declare toString.simps [simp del]

subsection \<open>Requests and responses\<close>

record request =
  req_method :: string
  url :: string
  headers :: "(string \<times> string) list"
  req_body :: string

text \<open>\<open>request.headers.get(name)\<close>; names are looked up as the handler writes them.\<close>

definition headers_get :: "request \<Rightarrow> string \<Rightarrow> string option" where
  "headers_get request name = map_of (headers request) name"

text \<open>\<open>new Request(url)\<close>.\<close>

definition new_Request :: "string \<Rightarrow> request" where
  "new_Request u = \<lparr>req_method = ''GET'', url = u, headers = [], req_body = []\<rparr>"

record item =
  name :: string
  href :: string

record WebDAVProps =
  displayname :: string
  creationdate :: string
  getcontentlength :: string
  getcontenttype :: string
  getetag :: string
  getlastmodified :: string
  resourcetype :: string

datatype body_init =
    Null
  | Text string
  | GenerateHTML string "item list"
  | GenerateErrorHTML string string
  | GeneratePropfindResponse string "WebDAVProps list"

record response =
  status :: nat
  resp_headers :: "(string \<times> string) list"
  resp_body :: body_init

definition Response :: "body_init \<Rightarrow> nat \<Rightarrow> (string \<times> string) list \<Rightarrow> response" where
  "Response b s hs = \<lparr>status = s, resp_headers = hs, resp_body = b\<rparr>"

text \<open>
  The constructor as the platform runs it. The statuses 101, 204, 205 and 304 are null
  body statuses: \<open>new Response(body, init)\<close> with such a status and a body other than
  \<open>null\<close> throws a \<open>TypeError\<close>. In the handler's file this happens at one call,
  \<open>new Response("No Content", { status: 204 })\<close> of \<open>handleMove\<close>; every other
  call has a \<open>null\<close> body or another status and is written \<open>Response\<close> directly.
\<close>

definition null_body_status :: "nat \<Rightarrow> bool" where
  "null_body_status s = (s = 101 \<or> s = 204 \<or> s = 205 \<or> s = 304)"

definition null_body_TypeError :: string where
  "null_body_TypeError =
     ''Response with null body status (101, 204, 205, or 304) cannot have a body.''"

definition new_Response ::
  "body_init \<Rightarrow> nat \<Rightarrow> (string \<times> string) list \<Rightarrow> string + response" where
  "new_Response b s hs =
     (if b \<noteq> Null \<and> null_body_status s then Inl null_body_TypeError
      else Inr (Response b s hs))"

subsection \<open>The store binding\<close>

text \<open>
  The bucket is the collaborator of section 6 of the specification: \<open>head\<close>,
  \<open>get\<close>, \<open>put\<close>, \<open>delete\<close> and \<open>list\<close> by key. Its state is the list of
  stored objects, in the order in which the store lists them. \<open>faults\<close> says which
  calls the backend rejects, and with which message; \<open>clock\<close> and \<open>digest\<close>
  stand for the upload time and the entity tag the store assigns on \<open>put\<close>.
\<close>

record R2HTTPMetadata =
  contentType :: "string option"

record r2object =
  key :: string
  body :: string
  obj_size :: nat
  etag :: string
  uploaded :: nat
  httpMetadata :: "R2HTTPMetadata option"
  customMetadata :: "(string \<times> string) list"
  displayname_o :: "string option"

record R2PutOptions =
  put_httpMetadata :: "R2HTTPMetadata option"
  put_customMetadata :: "(string \<times> string) list"

record R2ListOptions =
  prefix_opt :: string
  delimiter :: "char option"
  maxKeys :: "nat option"

record R2Objects =
  objects :: "r2object list"
  delimitedPrefixes :: "string list"

datatype store_call = Head string | Get string | Put string | Delete string | List string

record r2bucket =
  stored :: "r2object list"
  clock :: nat
  digest :: "string \<Rightarrow> string"
  faults :: "store_call \<Rightarrow> string option"

definition lookup :: "r2bucket \<Rightarrow> string \<Rightarrow> r2object option" where
  "lookup b k = find (\<lambda>ob. key ob = k) (stored b)"

definition bucket_get :: "r2bucket \<Rightarrow> string \<Rightarrow> string + r2object option" where
  "bucket_get b k =
     (case faults b (Get k) of Some e \<Rightarrow> Inl e | None \<Rightarrow> Inr (lookup b k))"

text \<open>\<open>head\<close> answers the object without its content.\<close>

definition bucket_head :: "r2bucket \<Rightarrow> string \<Rightarrow> string + r2object option" where
  "bucket_head b k =
     (case faults b (Head k) of
        Some e \<Rightarrow> Inl e
      | None \<Rightarrow> Inr (map_option (\<lambda>ob. ob\<lparr>body := []\<rparr>) (lookup b k)))"

text \<open>\<open>put\<close> replaces whatever the key held by one new object.\<close>

definition bucket_put ::
  "r2bucket \<Rightarrow> string \<Rightarrow> string \<Rightarrow> R2PutOptions \<Rightarrow> string + r2bucket" where
  "bucket_put b k content opts =
     (case faults b (Put k) of
        Some e \<Rightarrow> Inl e
      | None \<Rightarrow>
          Inr (b\<lparr>stored :=
                    filter (\<lambda>ob. key ob \<noteq> k) (stored b) @
                    [\<lparr>key = k, body = content, obj_size = length content,
                      etag = digest b content, uploaded = clock b,
                      httpMetadata = put_httpMetadata opts,
                      customMetadata = put_customMetadata opts,
                      displayname_o = None\<rparr>],
                  clock := Suc (clock b)\<rparr>))"

text \<open>\<open>delete\<close> of a key that holds nothing is not an error of the store.\<close>

definition bucket_delete :: "r2bucket \<Rightarrow> string \<Rightarrow> string + r2bucket" where
  "bucket_delete b k =
     (case faults b (Delete k) of
        Some e \<Rightarrow> Inl e
      | None \<Rightarrow> Inr (b\<lparr>stored := filter (\<lambda>ob. key ob \<noteq> k) (stored b)\<rparr>))"

text \<open>
  \<open>list\<close> answers the objects whose key starts with the prefix. With a delimiter, a key
  that has the delimiter after the prefix is not answered as an object: it is folded
  into the delimited prefix that ends at the first delimiter, each such prefix once.
  \<open>maxKeys\<close> bounds the number of results.
\<close>

definition delimited :: "string \<Rightarrow> char option \<Rightarrow> string \<Rightarrow> string option" where
  "delimited p d k =
     (case d of
        None \<Rightarrow> None
      | Some c \<Rightarrow>
          (let rest = drop (length p) k
           in if c \<in> set rest then Some (p @ takeWhile (\<lambda>x. x \<noteq> c) rest @ [c])
              else None))"

definition bucket_list :: "r2bucket \<Rightarrow> R2ListOptions \<Rightarrow> string + R2Objects" where
  "bucket_list b opts =
     (case faults b (List (prefix_opt opts)) of
        Some e \<Rightarrow> Inl e
      | None \<Rightarrow>
          (let p = prefix_opt opts;
               d = delimiter opts;
               matching = filter (\<lambda>ob. prefix p (key ob)) (stored b);
               objs = filter (\<lambda>ob. delimited p d (key ob) = None) matching;
               pfxs = remdups (List.map_filter (\<lambda>ob. delimited p d (key ob)) matching);
               objs' = (case maxKeys opts of None \<Rightarrow> objs | Some n \<Rightarrow> take n objs);
               pfxs' = (case maxKeys opts of None \<Rightarrow> pfxs
                        | Some n \<Rightarrow> take (n - length objs') pfxs)
           in Inr \<lparr>objects = objs', delimitedPrefixes = pfxs'\<rparr>))"

subsection \<open>What the handler takes from outside its file\<close>

text \<open>
  The handler imports \<open>make_resource_path\<close> and \<open>fromR2Object\<close> from
  \<open>utils/webdavUtils\<close>, and calls \<open>new URL\<close>, \<open>new Date().toUTCString()\<close>
  and \<open>Date.toUTCString\<close> of the platform. None of them is defined in the handler's
  file, so the handlers take them as parameters, gathered in one record; every theorem
  below holds for all of them. \<open>new_URL\<close> answers \<open>Inl\<close> with the message of the
  \<open>TypeError\<close> when its argument is not a URL.
\<close>

record ambient =
  make_resource_path :: "request \<Rightarrow> string"
  fromR2Object :: "r2object \<Rightarrow> WebDAVProps"
  new_URL :: "string \<Rightarrow> string + string"
  now_UTC :: string
  toUTCString :: "nat \<Rightarrow> string"

text \<open>The marker's name, the literal of \<open>handleMkcol\<close> and \<open>ensureParentDirectories\<close>.\<close>

definition marker_name :: string where
  "marker_name = ''_$folder$''"

text \<open>
  Modelled from the spec: \<open>listAll\<close> of \<open>utils/webdavUtils\<close>, which is not part
  of the handler's file, as the handler calls it (bucket and collection key, no
  recursion). Section 4.3: direct children only, by a prefix and delimiter query, so
  that a nested path is folded into one collection entry; the collection's own key and
  marker objects are not entries; an error of the store's listing aborts the whole
  listing. A folded entry is synthesized: it carries the collection's key and
  \<open>resourcetype = collection\<close>.
\<close>

definition collection_entry :: "string \<Rightarrow> r2object" where
  "collection_entry p =
     \<lparr>key = butlast p, body = [], obj_size = 0, etag = [], uploaded = 0,
      httpMetadata = None, customMetadata = [(''resourcetype'', ''collection'')],
      displayname_o = None\<rparr>"

definition listing_prefix :: "string \<Rightarrow> string" where
  "listing_prefix collectionKey =
     (if collectionKey = [] \<or> endsWith collectionKey ''/'' then collectionKey
      else collectionKey @ ''/'')"

definition listAll :: "r2bucket \<Rightarrow> string \<Rightarrow> string + r2object list" where
  "listAll bucket collectionKey =
     (case bucket_list bucket
             \<lparr>prefix_opt = listing_prefix collectionKey, delimiter = Some (CHR ''/''),
              maxKeys = None\<rparr> of
        Inl e \<Rightarrow> Inl e
      | Inr r \<Rightarrow>
          Inr (filter (\<lambda>ob. key ob \<noteq> collectionKey \<and> split_pop (key ob) \<noteq> marker_name)
                 (objects r) @
               map collection_entry (delimitedPrefixes r)))"

subsection \<open>The handlers\<close>

type_synonym outcome = "(string + response) \<times> r2bucket"

definition SUPPORT_METHODS :: "string list" where
  "SUPPORT_METHODS =
     [''OPTIONS'', ''PROPFIND'', ''MKCOL'', ''GET'', ''HEAD'', ''PUT'', ''COPY'', ''MOVE'',
      ''DELETE'']"

definition DAV_CLASS :: string where
  "DAV_CLASS = ''1, 2''"

definition html_headers :: "(string \<times> string) list" where
  "html_headers = [(''Content-Type'', ''text/html; charset=utf-8'')]"

definition xml_headers :: "(string \<times> string) list" where
  "xml_headers = [(''Content-Type'', ''application/xml; charset=utf-8'')]"

text \<open>The two icons of the directory page, as their UTF-8 bytes.\<close>

definition folder_icon :: string where
  "folder_icon = [char_of (240::nat), char_of (159::nat), char_of (147::nat), char_of (129::nat)]"

definition file_icon :: string where
  "file_icon = [char_of (240::nat), char_of (159::nat), char_of (147::nat), char_of (132::nat)]"

text \<open>\<open>object.httpMetadata?.contentType ?? "application/octet-stream"\<close>.\<close>

definition contentType_of :: "r2object \<Rightarrow> string" where
  "contentType_of ob =
     (case httpMetadata ob of
        None \<Rightarrow> ''application/octet-stream''
      | Some m \<Rightarrow> (case contentType m of None \<Rightarrow> ''application/octet-stream'' | Some t \<Rightarrow> t))"

definition object_headers :: "ambient \<Rightarrow> r2object \<Rightarrow> (string \<times> string) list" where
  "object_headers E ob =
     [(''Content-Type'', contentType_of ob),
      (''Content-Length'', toString (obj_size ob)),
      (''ETag'', etag ob),
      (''Last-Modified'', toUTCString E (uploaded ob))]"

definition handleOptions :: response where
  "handleOptions =
     Response Null 200
       [(''Allow'', join '', '' SUPPORT_METHODS),
        (''DAV'', DAV_CLASS),
        (''Access-Control-Allow-Methods'', join '', '' SUPPORT_METHODS),
        (''Access-Control-Allow-Origin'', ''*''),
        (''Access-Control-Allow-Headers'',
           ''Authorization, Content-Type, Depth, Overwrite, Destination, Range''),
        (''Access-Control-Expose-Headers'',
           ''Content-Type, Content-Length, DAV, ETag, Last-Modified, Location, Date, Content-Range''),
        (''Access-Control-Allow-Credentials'', ''true''),
        (''Access-Control-Max-Age'', ''86400'')]"

definition handleHead :: "ambient \<Rightarrow> request \<Rightarrow> r2bucket \<Rightarrow> outcome" where
  "handleHead E request bucket =
     (let resource_path = make_resource_path E request
      in case bucket_head bucket resource_path of
           Inl err \<Rightarrow> (Inl err, bucket)
         | Inr None \<Rightarrow> (Inr (Response Null 404 []), bucket)
         | Inr (Some ob) \<Rightarrow> (Inr (Response Null 200 (object_headers E ob)), bucket))"

text \<open>One entry of the directory page, the body of the loop of \<open>handleDirectory\<close>.\<close>

definition directory_item :: "r2object \<Rightarrow> item" where
  "directory_item ob =
     (let isDirectory = (map_of (customMetadata ob) ''resourcetype'' = Some ''collection'');
          href = ''/'' @ key ob;
          displayName =
            or_else (Some (or_else (displayname_o ob) (split_pop (key ob)))) (key ob)
      in \<lparr>name = (if isDirectory then folder_icon @ '' '' else file_icon @ '' '') @ displayName,
          href = href\<rparr>)"

definition parent_link :: item where
  "parent_link = \<lparr>name = folder_icon @ '' ..'', href = ''../''\<rparr>"

text \<open>
  \<open>handleDirectory\<close> reads the variable \<open>bucketName\<close> when it builds the page's
  title, after the listing and outside its \<open>try\<close>. The handler's file binds no such
  name: it is neither declared nor imported nor a parameter, and \<open>handleWebDAV\<close>,
  which destructures \<open>BUCKET_NAME\<close> from \<open>env\<close>, passes it to no handler. Reading it
  throws a \<open>ReferenceError\<close>.
\<close>

definition bucketName :: "string + string" where
  "bucketName = Inl ''bucketName is not defined''"

definition handleDirectory :: "r2bucket \<Rightarrow> string \<Rightarrow> outcome" where
  "handleDirectory bucket resource_path =
     (let items = (if resource_path \<noteq> [] then [parent_link] else [])
      in case listAll bucket resource_path of
           Inl err \<Rightarrow>
             (Inr (Response (GenerateErrorHTML ''Error listing directory contents'' err) 500
                     html_headers), bucket)
         | Inr obs \<Rightarrow>
             (let items =
                    items @ map directory_item (filter (\<lambda>ob. key ob \<noteq> resource_path) obs)
              in case bucketName of
                   Inl referenceError \<Rightarrow> (Inl referenceError, bucket)
                 | Inr n \<Rightarrow>
                     (Inr (Response (GenerateHTML (''WebDAV File Browser['' @ n @ '']'') items)
                             200 html_headers), bucket)))"

definition handleFile :: "ambient \<Rightarrow> r2bucket \<Rightarrow> string \<Rightarrow> outcome" where
  "handleFile E bucket resource_path =
     (case bucket_get bucket resource_path of
        Inl err \<Rightarrow>
          (Inr (Response (GenerateErrorHTML ''Error retrieving file'' err) 500 html_headers),
           bucket)
      | Inr None \<Rightarrow> (Inr (Response (Text ''Not Found'') 404 []), bucket)
      | Inr (Some ob) \<Rightarrow> (Inr (Response (Text (body ob)) 200 (object_headers E ob)), bucket))"

definition handleGet :: "ambient \<Rightarrow> request \<Rightarrow> r2bucket \<Rightarrow> outcome" where
  "handleGet E request bucket =
     (let resource_path = make_resource_path E request
      in if endsWith (url request) ''/'' then handleDirectory bucket resource_path
         else handleFile E bucket resource_path)"

definition handlePut :: "ambient \<Rightarrow> request \<Rightarrow> r2bucket \<Rightarrow> outcome" where
  "handlePut E request bucket =
     (let resource_path = make_resource_path E request
      in case bucket_put bucket resource_path (req_body request)
                \<lparr>put_httpMetadata =
                   Some \<lparr>contentType =
                           Some (or_else (headers_get request ''Content-Type'')
                                   ''application/octet-stream'')\<rparr>,
                 put_customMetadata = []\<rparr> of
           Inl err \<Rightarrow>
             (Inr (Response (GenerateErrorHTML ''Error uploading file'' err) 500 html_headers),
              bucket)
         | Inr bucket' \<Rightarrow> (Inr (Response (Text ''Created'') 201 []), bucket'))"

definition handleDelete :: "ambient \<Rightarrow> request \<Rightarrow> r2bucket \<Rightarrow> outcome" where
  "handleDelete E request bucket =
     (let resource_path = make_resource_path E request
      in case bucket_delete bucket resource_path of
           Inr bucket' \<Rightarrow> (Inr (Response Null 204 []), bucket')
         | Inl errorMessage \<Rightarrow>
             if str_includes errorMessage ''not found'' \<or>
                str_includes errorMessage ''does not exist'' \<or>
                str_includes errorMessage ''404''
             then (Inr (Response Null 204 []), bucket)
             else (Inr (Response Null 500 []), bucket))"

text \<open>The two constants that \<open>handleMkcol\<close> computes from the resource path.\<close>

definition normalizedPath :: "string \<Rightarrow> string" where
  "normalizedPath resource_path =
     (if endsWith resource_path ''/'' then resource_path else resource_path @ ''/'')"

definition markerFileKey :: "string \<Rightarrow> string" where
  "markerFileKey resource_path = normalizedPath resource_path @ ''_$folder$''"

definition handleMkcol :: "ambient \<Rightarrow> request \<Rightarrow> r2bucket \<Rightarrow> outcome" where
  "handleMkcol E request bucket =
     (let resource_path = make_resource_path E request
      in if resource_path = [] then (Inr (Response (Text ''Method Not Allowed'') 405 []), bucket)
         else
           (let markerFileKey = markerFileKey resource_path
            in case bucket_head bucket markerFileKey of
                 Inl err \<Rightarrow>
                   (Inr (Response (GenerateErrorHTML ''Error creating collection'' err) 500
                           html_headers), bucket)
               | Inr (Some existing) \<Rightarrow> (Inr (Response (Text ''Alraedy Exist'') 201 []), bucket)
               | Inr None \<Rightarrow>
                   (case bucket_put bucket markerFileKey []
                           \<lparr>put_httpMetadata = None,
                            put_customMetadata = [(''resourcetype'', ''collection'')]\<rparr> of
                      Inl err \<Rightarrow>
                        (Inr (Response (GenerateErrorHTML ''Error creating collection'' err) 500
                                html_headers), bucket)
                    | Inr bucket' \<Rightarrow> (Inr (Response (Text ''Created'') 201 []), bucket'))))"

text \<open>The entry that \<open>handlePropfind\<close> synthesizes at depth 0.\<close>

definition synthesized_props :: "ambient \<Rightarrow> string \<Rightarrow> WebDAVProps" where
  "synthesized_props E resource_path =
     \<lparr>displayname = or_else (Some (split_pop resource_path)) resource_path,
      creationdate = now_UTC E,
      getcontentlength = ''0'',
      getcontenttype = [],
      getetag = [char_of (34::nat)] @ ''implicit-folder-'' @ resource_path @ [char_of (34::nat)],
      getlastmodified = now_UTC E,
      resourcetype = ''collection''\<rparr>"

definition handlePropfind :: "ambient \<Rightarrow> request \<Rightarrow> r2bucket \<Rightarrow> outcome" where
  "handlePropfind E request bucket =
     (let resource_path = make_resource_path E request;
          depth = or_else (headers_get request ''Depth'') ''infinity''
      in if depth \<noteq> ''0'' then
           (case listAll bucket resource_path of
              Inl err \<Rightarrow>
                (Inr (Response (GenerateErrorHTML ''Error in PROPFIND'' err) 500 xml_headers),
                 bucket)
            | Inr obs \<Rightarrow>
                (Inr (Response
                        (GeneratePropfindResponse resource_path (map (fromR2Object E) obs))
                        207 xml_headers), bucket))
         else
           (let prefix = resource_path;
                listOptions =
                  \<lparr>prefix_opt = prefix, delimiter = Some (CHR ''/''), maxKeys = Some 1\<rparr>
            in case bucket_list bucket listOptions of
                 Inl err \<Rightarrow>
                   (Inr (Response (GenerateErrorHTML ''Error in PROPFIND'' err) 500 xml_headers),
                    bucket)
               | Inr listResult \<Rightarrow>
                   (let folderExists =
                          (length (delimitedPrefixes listResult) > 0 \<or>
                           length (objects listResult) > 0)
                    in if folderExists then
                         (Inr (Response
                                 (GeneratePropfindResponse resource_path
                                    [synthesized_props E resource_path])
                                 207 xml_headers), bucket)
                       else (Inr (Response (Text ''Not Found'') 404 []), bucket))))"

text \<open>
  In \<open>handleCopy\<close> and \<open>handleMove\<close> the destination is parsed before the
  \<open>try\<close> block: a \<open>TypeError\<close> of \<open>new URL\<close> escapes the handler. The last
  statement of \<open>handleMove\<close> constructs its answer inside the \<open>try\<close>, so the
  \<open>TypeError\<close> of the constructor is caught by the handler's own \<open>catch\<close>.
\<close>

definition handleCopy :: "ambient \<Rightarrow> request \<Rightarrow> r2bucket \<Rightarrow> outcome" where
  "handleCopy E request bucket =
     (let sourcePath = make_resource_path E request
      in case headers_get request ''Destination'' of
           None \<Rightarrow>
             (Inr (Response (Text ''Bad Request: Destination header is missing'') 400 []), bucket)
         | Some destinationHeader \<Rightarrow>
             if destinationHeader = [] then
               (Inr (Response (Text ''Bad Request: Destination header is missing'') 400 []),
                bucket)
             else
               (case new_URL E destinationHeader of
                  Inl typeError \<Rightarrow> (Inl typeError, bucket)
                | Inr destinationUrl \<Rightarrow>
                    (let destinationPath = make_resource_path E (new_Request destinationUrl)
                     in case bucket_get bucket sourcePath of
                          Inl err \<Rightarrow>
                            (Inr (Response (GenerateErrorHTML ''Error copying file'' err) 500
                                    html_headers), bucket)
                        | Inr None \<Rightarrow> (Inr (Response (Text ''Not Found'') 404 []), bucket)
                        | Inr (Some sourceObject) \<Rightarrow>
                            (case bucket_put bucket destinationPath (body sourceObject)
                                    \<lparr>put_httpMetadata = httpMetadata sourceObject,
                                     put_customMetadata = customMetadata sourceObject\<rparr> of
                               Inl err \<Rightarrow>
                                 (Inr (Response (GenerateErrorHTML ''Error copying file'' err) 500
                                         html_headers), bucket)
                             | Inr bucket' \<Rightarrow>
                                 (Inr (Response (Text ''Created'') 201 []), bucket')))))"

definition handleMove :: "ambient \<Rightarrow> request \<Rightarrow> r2bucket \<Rightarrow> outcome" where
  "handleMove E request bucket =
     (let sourcePath = make_resource_path E request
      in case headers_get request ''Destination'' of
           None \<Rightarrow>
             (Inr (Response (Text ''Bad Request: Destination header is missing'') 400 []), bucket)
         | Some destinationHeader \<Rightarrow>
             if destinationHeader = [] then
               (Inr (Response (Text ''Bad Request: Destination header is missing'') 400 []),
                bucket)
             else
               (case new_URL E destinationHeader of
                  Inl typeError \<Rightarrow> (Inl typeError, bucket)
                | Inr destinationUrl \<Rightarrow>
                    (let destinationPath = make_resource_path E (new_Request destinationUrl)
                     in case bucket_get bucket sourcePath of
                          Inl err \<Rightarrow>
                            (Inr (Response (GenerateErrorHTML ''Error moving file'' err) 500
                                    html_headers), bucket)
                        | Inr None \<Rightarrow> (Inr (Response (Text ''Not Found'') 404 []), bucket)
                        | Inr (Some sourceObject) \<Rightarrow>
                            (case bucket_put bucket destinationPath (body sourceObject)
                                    \<lparr>put_httpMetadata = httpMetadata sourceObject,
                                     put_customMetadata = customMetadata sourceObject\<rparr> of
                               Inl err \<Rightarrow>
                                 (Inr (Response (GenerateErrorHTML ''Error moving file'' err) 500
                                         html_headers), bucket)
                             | Inr bucket1 \<Rightarrow>
                                 (case bucket_delete bucket1 sourcePath of
                                    Inl err \<Rightarrow>
                                      (Inr (Response (GenerateErrorHTML ''Error moving file'' err)
                                              500 html_headers), bucket1)
                                  | Inr bucket2 \<Rightarrow>
                                      (case new_Response (Text ''No Content'') 204 [] of
                                         Inl err \<Rightarrow>
                                           (Inr (Response
                                                   (GenerateErrorHTML ''Error moving file'' err)
                                                   500 html_headers), bucket2)
                                       | Inr resp \<Rightarrow> (Inr resp, bucket2)))))))"

text \<open>
  The dispatcher. An exception that escapes a handler is answered 500 by the
  \<open>catch\<close> of \<open>handleWebDAV\<close>.
\<close>

record Env =
  BUCKET :: r2bucket
  BUCKET_NAME :: string

definition dispatch :: "ambient \<Rightarrow> request \<Rightarrow> r2bucket \<Rightarrow> outcome" where
  "dispatch E request bucket =
     (let m = req_method request
      in if m = ''OPTIONS'' then (Inr handleOptions, bucket)
         else if m = ''HEAD'' then handleHead E request bucket
         else if m = ''GET'' then handleGet E request bucket
         else if m = ''PUT'' then handlePut E request bucket
         else if m = ''DELETE'' then handleDelete E request bucket
         else if m = ''MKCOL'' then handleMkcol E request bucket
         else if m = ''PROPFIND'' then handlePropfind E request bucket
         else if m = ''COPY'' then handleCopy E request bucket
         else if m = ''MOVE'' then handleMove E request bucket
         else (Inr (Response (Text ''Method Not Allowed'') 405
                      [(''Allow'', join '', '' SUPPORT_METHODS), (''DAV'', DAV_CLASS)]), bucket))"

definition handleWebDAV :: "ambient \<Rightarrow> request \<Rightarrow> Env \<Rightarrow> response \<times> r2bucket" where
  "handleWebDAV E request env =
     (case dispatch E request (BUCKET env) of
        (Inr resp, bucket') \<Rightarrow> (resp, bucket')
      | (Inl message, bucket') \<Rightarrow>
          (Response (GenerateErrorHTML ''Internal Server Error'' message) 500 html_headers,
           bucket'))"

subsection \<open>An example platform\<close>

text \<open>
  A concrete platform for the examples below: URLs of the form \<open>http://host/path\<close>,
  resolved to the path without its leading slash and without one trailing slash.
\<close>

definition example_resolver :: "request \<Rightarrow> string" where
  "example_resolver r =
     (let p = drop 1 (dropWhile (\<lambda>c. c \<noteq> CHR ''/'') (drop 7 (url r)))
      in if endsWith p ''/'' then butlast p else p)"

definition example_props :: "r2object \<Rightarrow> WebDAVProps" where
  "example_props ob =
     \<lparr>displayname = split_pop (key ob), creationdate = toString (uploaded ob),
      getcontentlength = toString (obj_size ob), getcontenttype = contentType_of ob,
      getetag = etag ob, getlastmodified = toString (uploaded ob),
      resourcetype = or_else (map_of (customMetadata ob) ''resourcetype'') []\<rparr>"

definition example_ambient :: ambient where
  "example_ambient =
     \<lparr>make_resource_path = example_resolver,
      fromR2Object = example_props,
      new_URL = (\<lambda>s. if prefix ''http://'' s then Inr s else Inl ''Invalid URL''),
      now_UTC = ''Tue, 03 Nov 2026 00:00:00 GMT'',
      toUTCString = toString\<rparr>"

definition empty_bucket :: r2bucket where
  "empty_bucket = \<lparr>stored = [], clock = 0, digest = (\<lambda>c. c), faults = (\<lambda>c. None)\<rparr>"

text \<open>A bucket whose backend rejects every \<open>delete\<close> with the given message.\<close>

definition failing_delete_bucket :: "string \<Rightarrow> r2bucket" where
  "failing_delete_bucket msg =
     \<lparr>stored = [], clock = 0, digest = (\<lambda>c. c),
      faults = (\<lambda>c. case c of Delete k \<Rightarrow> Some msg | _ \<Rightarrow> None)\<rparr>"

definition example_request ::
  "string \<Rightarrow> string \<Rightarrow> (string \<times> string) list \<Rightarrow> string \<Rightarrow> request" where
  "example_request m u hs b = \<lparr>req_method = m, url = u, headers = hs, req_body = b\<rparr>"

text \<open>The store after \<open>PUT /a/b.txt\<close> with body \<open>hi\<close>.\<close>

definition bucket_ab :: r2bucket where
  "bucket_ab =
     snd (handlePut example_ambient
            (example_request ''PUT'' ''http://h/a/b.txt'' [(''Content-Type'', ''text/plain'')] ''hi'')
            empty_bucket)"

definition object_ab :: r2object where
  "object_ab =
     \<lparr>key = ''a/b.txt'', body = ''hi'', obj_size = 2, etag = ''hi'', uploaded = 0,
      httpMetadata = Some \<lparr>contentType = Some ''text/plain''\<rparr>, customMetadata = [],
      displayname_o = None\<rparr>"

definition example_env :: Env where
  "example_env = \<lparr>BUCKET = bucket_ab, BUCKET_NAME = ''files''\<rparr>"

text \<open>A COPY or MOVE request with its \<open>Destination\<close> header, and a GET request.\<close>

definition transfer_request :: "string \<Rightarrow> string \<Rightarrow> string \<Rightarrow> request" where
  "transfer_request m src dst = example_request m src [(''Destination'', dst)] []"

definition get_request :: "string \<Rightarrow> request" where
  "get_request u = example_request ''GET'' u [] []"

text \<open>The store after \<open>PUT /tabby.txt\<close>, and a PROPFIND request with \<open>Depth: 0\<close>.\<close>

definition bucket_tabby :: r2bucket where
  "bucket_tabby =
     snd (handlePut example_ambient (example_request ''PUT'' ''http://h/tabby.txt'' [] ''meow'')
            empty_bucket)"

definition propfind0_request :: "string \<Rightarrow> request" where
  "propfind0_request u = example_request ''PROPFIND'' u [(''Depth'', ''0'')] []"

section \<open>Properties\<close>

subsection \<open>The store\<close>

lemma find_filter_same: "find (\<lambda>ob. key ob = k) (filter (\<lambda>ob. key ob \<noteq> k) xs) = None"
  by (induction xs) auto

lemma find_filter_other:
  "k' \<noteq> k \<Longrightarrow>
   find (\<lambda>ob. key ob = k') (filter (\<lambda>ob. key ob \<noteq> k) xs) = find (\<lambda>ob. key ob = k') xs"
  by (induction xs) auto

lemma find_append_case:
  "find P (xs @ ys) = (case find P xs of None \<Rightarrow> find P ys | Some x \<Rightarrow> Some x)"
  by (induction xs) auto

lemma lookup_put_same:
  "bucket_put b k c opts = Inr b' \<Longrightarrow>
   lookup b' k = Some \<lparr>key = k, body = c, obj_size = length c, etag = digest b c,
                        uploaded = clock b, httpMetadata = put_httpMetadata opts,
                        customMetadata = put_customMetadata opts, displayname_o = None\<rparr>"
  by (auto simp: bucket_put_def lookup_def find_append_case find_filter_same
           split: option.splits)

lemma lookup_put_other:
  "bucket_put b k c opts = Inr b' \<Longrightarrow> k' \<noteq> k \<Longrightarrow> lookup b' k' = lookup b k'"
  by (auto simp: bucket_put_def lookup_def find_append_case find_filter_other
           split: option.splits)

lemma faults_put: "bucket_put b k c opts = Inr b' \<Longrightarrow> faults b' = faults b"
  by (auto simp: bucket_put_def split: option.splits)

lemma lookup_delete_same: "bucket_delete b k = Inr b' \<Longrightarrow> lookup b' k = None"
  by (auto simp: bucket_delete_def lookup_def find_filter_same split: option.splits)

lemma lookup_delete_other:
  "bucket_delete b k = Inr b' \<Longrightarrow> k' \<noteq> k \<Longrightarrow> lookup b' k' = lookup b k'"
  by (auto simp: bucket_delete_def lookup_def find_filter_other split: option.splits)

lemma faults_delete: "bucket_delete b k = Inr b' \<Longrightarrow> faults b' = faults b"
  by (auto simp: bucket_delete_def split: option.splits)

lemma delete_absent: "bucket_delete b k = Inr b' \<Longrightarrow> lookup b k = None \<Longrightarrow> b' = b"
  by (auto simp: bucket_delete_def lookup_def find_None_iff split: option.splits)

subsection \<open>DELETE\<close>

text \<open>
  C5. DELETE is idempotent. For every key, when the store accepts the \<open>delete\<close>, the
  answer is 204 whether or not the key held an object, the key holds nothing afterwards,
  and a second DELETE of the same key is answered 204 again. When the store rejects the
  \<open>delete\<close>, the answer is 204 if the message contains \<open>not found\<close>,
  \<open>does not exist\<close> or \<open>404\<close>, and 500 for every other message; the bucket is
  as it was.
\<close>

theorem handleDelete_idempotent:
  assumes "make_resource_path E request = k"
  shows "(faults bucket (Delete k) = None \<longrightarrow>
            (\<exists>b1. handleDelete E request bucket = (Inr (Response Null 204 []), b1) \<and>
                  lookup b1 k = None \<and>
                  handleDelete E request b1 = (Inr (Response Null 204 []), b1))) \<and>
         (\<forall>msg. faults bucket (Delete k) = Some msg \<longrightarrow>
            handleDelete E request bucket =
              (Inr (Response Null
                      (if str_includes msg ''not found'' \<or> str_includes msg ''does not exist'' \<or>
                          str_includes msg ''404''
                       then 204 else 500) []), bucket))"
proof (intro conjI impI allI)
  assume ok: "faults bucket (Delete k) = None"
  then obtain b1 where d1: "bucket_delete bucket k = Inr b1"
    by (simp add: bucket_delete_def)
  have gone: "lookup b1 k = None"
    using d1 by (rule lookup_delete_same)
  have "faults b1 (Delete k) = None"
    using faults_delete [OF d1] ok by simp
  then obtain b2 where d2: "bucket_delete b1 k = Inr b2"
    by (simp add: bucket_delete_def)
  have same: "b2 = b1"
    using d2 gone by (rule delete_absent)
  have first: "handleDelete E request bucket = (Inr (Response Null 204 []), b1)"
    using assms d1 by (simp add: handleDelete_def)
  have second: "handleDelete E request b1 = (Inr (Response Null 204 []), b1)"
    using assms d2 same by (simp add: handleDelete_def)
  from first gone second
  show "\<exists>b1. handleDelete E request bucket = (Inr (Response Null 204 []), b1) \<and>
             lookup b1 k = None \<and>
             handleDelete E request b1 = (Inr (Response Null 204 []), b1)"
    by blast
next
  fix msg
  assume "faults bucket (Delete k) = Some msg"
  then have "bucket_delete bucket k = Inl msg"
    by (simp add: bucket_delete_def)
  then show "handleDelete E request bucket =
              (Inr (Response Null
                      (if str_includes msg ''not found'' \<or> str_includes msg ''does not exist'' \<or>
                          str_includes msg ''404''
                       then 204 else 500) []), bucket)"
    using assms by (simp add: handleDelete_def)
qed


theorem handleDelete_idempotent_witness:
  "make_resource_path example_ambient (example_request ''DELETE'' ''http://h/a/b.txt'' [] []) =
     ''a/b.txt'' \<and>
   faults bucket_ab (Delete ''a/b.txt'') = None \<and>
   lookup bucket_ab ''a/b.txt'' \<noteq> None \<and>
   (\<exists>b1. handleDelete example_ambient (example_request ''DELETE'' ''http://h/a/b.txt'' [] [])
           bucket_ab = (Inr (Response Null 204 []), b1) \<and>
         lookup b1 ''a/b.txt'' = None \<and>
         handleDelete example_ambient (example_request ''DELETE'' ''http://h/a/b.txt'' [] []) b1 =
           (Inr (Response Null 204 []), b1)) \<and>
   faults (failing_delete_bucket ''R2 error: object not found'') (Delete ''a/b.txt'') =
     Some ''R2 error: object not found'' \<and>
   handleDelete example_ambient (example_request ''DELETE'' ''http://h/a/b.txt'' [] [])
     (failing_delete_bucket ''R2 error: object not found'') =
     (Inr (Response Null 204 []), failing_delete_bucket ''R2 error: object not found'') \<and>
   faults (failing_delete_bucket ''quota exceeded'') (Delete ''a/b.txt'') =
     Some ''quota exceeded'' \<and>
   handleDelete example_ambient (example_request ''DELETE'' ''http://h/a/b.txt'' [] [])
     (failing_delete_bucket ''quota exceeded'') =
     (Inr (Response Null 500 []), failing_delete_bucket ''quota exceeded'')"
proof -
  let ?req = "example_request ''DELETE'' ''http://h/a/b.txt'' [] []"
  have k: "make_resource_path example_ambient ?req = ''a/b.txt''"
    by code_simp
  have ok: "faults bucket_ab (Delete ''a/b.txt'') = None"
    by code_simp
  have there: "lookup bucket_ab ''a/b.txt'' \<noteq> None"
    by code_simp
  have f1: "faults (failing_delete_bucket ''R2 error: object not found'') (Delete ''a/b.txt'') =
              Some ''R2 error: object not found''"
    by (simp add: failing_delete_bucket_def)
  have f2: "faults (failing_delete_bucket ''quota exceeded'') (Delete ''a/b.txt'') =
              Some ''quota exceeded''"
    by (simp add: failing_delete_bucket_def)
  have s1: "str_includes ''R2 error: object not found'' ''not found''"
    by code_simp
  have s2: "\<not> (str_includes ''quota exceeded'' ''not found'' \<or>
                str_includes ''quota exceeded'' ''does not exist'' \<or>
                str_includes ''quota exceeded'' ''404'')"
    by code_simp
  show ?thesis
    using handleDelete_idempotent [OF k, of bucket_ab]
          handleDelete_idempotent [OF k, of "failing_delete_bucket ''R2 error: object not found''"]
          handleDelete_idempotent [OF k, of "failing_delete_bucket ''quota exceeded''"]
          k ok there f1 f2 s1 s2
    by simp
qed

subsection \<open>MKCOL\<close>

lemma head_present:
  "faults b (Head k) = None \<Longrightarrow> lookup b k = Some ob \<Longrightarrow>
   bucket_head b k = Inr (Some (ob\<lparr>body := []\<rparr>))"
  by (simp add: bucket_head_def)

lemma handleMkcol_present:
  assumes "make_resource_path E request = k" and "k \<noteq> []"
    and "faults b (Head (markerFileKey k)) = None" and "lookup b (markerFileKey k) = Some ob"
  shows "handleMkcol E request b = (Inr (Response (Text ''Alraedy Exist'') 201 []), b)"
  using assms by (simp add: handleMkcol_def Let_def head_present)

lemma handleMkcol_201:
  assumes "make_resource_path E request = k" and "k \<noteq> []"
    and "handleMkcol E request bucket = (Inr r, b')" and "status r = 201"
  shows "faults bucket (Head (markerFileKey k)) = None \<and>
         (case lookup bucket (markerFileKey k) of
            Some ob \<Rightarrow> b' = bucket
          | None \<Rightarrow>
              bucket_put bucket (markerFileKey k) []
                \<lparr>put_httpMetadata = None,
                 put_customMetadata = [(''resourcetype'', ''collection'')]\<rparr> = Inr b')"
  using assms
  by (auto simp: handleMkcol_def Let_def Response_def bucket_head_def
           split: sum.splits option.splits)




text \<open>
  C8. MKCOL is idempotent. For every non-empty key: when the store accepts the
  \<open>head\<close> and the \<open>put\<close> of the marker, MKCOL is answered 201; and after any
  MKCOL answered 201, a second MKCOL of the same key is answered 201 again and leaves the
  bucket exactly as the first one left it.
\<close>

theorem handleMkcol_idempotent:
  assumes "make_resource_path E request = k" and "k \<noteq> []"
  shows "(faults bucket (Head (markerFileKey k)) = None \<and>
          faults bucket (Put (markerFileKey k)) = None \<longrightarrow>
            (\<exists>r1. fst (handleMkcol E request bucket) = Inr r1 \<and> status r1 = 201)) \<and>
         (\<forall>r1 b1. handleMkcol E request bucket = (Inr r1, b1) \<and> status r1 = 201 \<longrightarrow>
            (\<exists>r2. handleMkcol E request b1 = (Inr r2, b1) \<and> status r2 = 201))"
proof (intro conjI impI allI)
  assume "faults bucket (Head (markerFileKey k)) = None \<and>
          faults bucket (Put (markerFileKey k)) = None"
  then show "\<exists>r1. fst (handleMkcol E request bucket) = Inr r1 \<and> status r1 = 201"
    using assms
    by (auto simp: handleMkcol_def Let_def Response_def bucket_head_def bucket_put_def
             split: option.splits)
next
  fix r1 b1
  assume first: "handleMkcol E request bucket = (Inr r1, b1) \<and> status r1 = 201"
  note step = handleMkcol_201 [OF assms, of bucket r1 b1]
  have hd0: "faults bucket (Head (markerFileKey k)) = None"
    using step first by simp
  have "faults b1 (Head (markerFileKey k)) = None \<and> lookup b1 (markerFileKey k) \<noteq> None"
  proof (cases "lookup bucket (markerFileKey k)")
    case None
    then have put: "bucket_put bucket (markerFileKey k) []
                      \<lparr>put_httpMetadata = None,
                       put_customMetadata = [(''resourcetype'', ''collection'')]\<rparr> = Inr b1"
      using step first by simp
    show ?thesis
      using lookup_put_same [OF put] faults_put [OF put] hd0 by simp
  next
    case (Some ob)
    then have "b1 = bucket"
      using step first by simp
    then show ?thesis
      using Some hd0 by simp
  qed
  then obtain ob where "faults b1 (Head (markerFileKey k)) = None"
    and "lookup b1 (markerFileKey k) = Some ob"
    by blast
  then have "handleMkcol E request b1 = (Inr (Response (Text ''Alraedy Exist'') 201 []), b1)"
    using assms by (simp add: handleMkcol_present)
  then show "\<exists>r2. handleMkcol E request b1 = (Inr r2, b1) \<and> status r2 = 201"
    by (simp add: Response_def)
qed

text \<open>C8, an instance: \<open>MKCOL /x/\<close> twice, starting from the empty bucket.\<close>

theorem handleMkcol_idempotent_witness:
  "make_resource_path example_ambient (example_request ''MKCOL'' ''http://h/x/'' [] []) = ''x'' \<and>
   ''x'' \<noteq> [] \<and>
   faults empty_bucket (Head (markerFileKey ''x'')) = None \<and>
   faults empty_bucket (Put (markerFileKey ''x'')) = None \<and>
   (\<exists>r1. fst (handleMkcol example_ambient (example_request ''MKCOL'' ''http://h/x/'' [] [])
                empty_bucket) = Inr r1 \<and> status r1 = 201) \<and>
   fst (handleMkcol example_ambient (example_request ''MKCOL'' ''http://h/x/'' [] []) empty_bucket) =
     Inr (Response (Text ''Created'') 201 []) \<and>
   (\<exists>r2. handleMkcol example_ambient (example_request ''MKCOL'' ''http://h/x/'' [] [])
            (snd (handleMkcol example_ambient (example_request ''MKCOL'' ''http://h/x/'' [] [])
                    empty_bucket)) =
          (Inr r2, snd (handleMkcol example_ambient (example_request ''MKCOL'' ''http://h/x/'' [] [])
                          empty_bucket)) \<and>
        status r2 = 201)"
proof -
  let ?req = "example_request ''MKCOL'' ''http://h/x/'' [] []"
  let ?b1 = "snd (handleMkcol example_ambient ?req empty_bucket)"
  have k: "make_resource_path example_ambient ?req = ''x''"
    by code_simp
  have ne: "''x'' \<noteq> []"
    by simp
  have f1: "faults empty_bucket (Head (markerFileKey ''x'')) = None"
    by (simp add: empty_bucket_def)
  have f2: "faults empty_bucket (Put (markerFileKey ''x'')) = None"
    by (simp add: empty_bucket_def)
  have first: "fst (handleMkcol example_ambient ?req empty_bucket) =
                 Inr (Response (Text ''Created'') 201 [])"
    by code_simp
  then have run: "handleMkcol example_ambient ?req empty_bucket =
                    (Inr (Response (Text ''Created'') 201 []), ?b1)"
    by (simp add: prod_eq_iff)
  have st: "status (Response (Text ''Created'') 201 []) = 201"
    by (simp add: Response_def)
  note inst = handleMkcol_idempotent [OF k ne, of empty_bucket]
  have a: "\<exists>r1. fst (handleMkcol example_ambient ?req empty_bucket) = Inr r1 \<and> status r1 = 201"
    by (rule inst [THEN conjunct1, THEN mp, OF conjI [OF f1 f2]])
  have b: "\<exists>r2. handleMkcol example_ambient ?req ?b1 = (Inr r2, ?b1) \<and> status r2 = 201"
    by (rule inst [THEN conjunct2, THEN spec, THEN spec, THEN mp, OF conjI [OF run st]])
  show ?thesis
    by (rule conjI [OF k conjI [OF ne conjI [OF f1 conjI [OF f2 conjI [OF a conjI [OF first b]]]]]])
qed

subsection \<open>COPY and MOVE\<close>

lemma get_ok: "bucket_get b k = Inr x \<longleftrightarrow> faults b (Get k) = None \<and> x = lookup b k"
  by (auto simp: bucket_get_def split: option.splits)

lemma handleCopy_201:
  assumes "handleCopy E request bucket = (Inr r, b')" and "status r = 201"
  shows "\<exists>d u ob. headers_get request ''Destination'' = Some d \<and> new_URL E d = Inr u \<and>
           bucket_get bucket (make_resource_path E request) = Inr (Some ob) \<and>
           bucket_put bucket (make_resource_path E (new_Request u)) (body ob)
             \<lparr>put_httpMetadata = httpMetadata ob, put_customMetadata = customMetadata ob\<rparr> =
             Inr b'"
  using assms
  by (auto simp: handleCopy_def Let_def Response_def
           split: option.splits sum.splits if_splits)

lemma handleFile_absent:
  "faults b (Get k) = None \<Longrightarrow> lookup b k = None \<Longrightarrow>
   handleFile E b k = (Inr (Response (Text ''Not Found'') 404 []), b)"
  by (simp add: handleFile_def bucket_get_def)

lemma handleFile_present:
  "faults b (Get k) = None \<Longrightarrow> lookup b k = Some ob \<Longrightarrow>
   handleFile E b k = (Inr (Response (Text (body ob)) 200 (object_headers E ob)), b)"
  by (simp add: handleFile_def bucket_get_def)

lemma handleGet_file:
  "\<not> endsWith (url request) ''/'' \<Longrightarrow>
   handleGet E request b = handleFile E b (make_resource_path E request)"
  by (simp add: handleGet_def)

text \<open>
  C4, as the code has it. For every COPY or MOVE request: when the \<open>Destination\<close>
  header is missing (absent or empty) the answer is 400; when it is present and
  \<open>new URL\<close> rejects it, the \<open>TypeError\<close> escapes the handler and the dispatcher
  answers 500. In both cases the bucket is returned as it was: no store call is made.
\<close>

theorem destination_missing_or_invalid:
  assumes "req_method request = ''COPY'' \<or> req_method request = ''MOVE''"
  shows "(headers_get request ''Destination'' = None \<or>
          headers_get request ''Destination'' = Some [] \<longrightarrow>
            handleWebDAV E request env =
              (Response (Text ''Bad Request: Destination header is missing'') 400 [],
               BUCKET env)) \<and>
         (\<forall>d msg. headers_get request ''Destination'' = Some d \<and> d \<noteq> [] \<and>
                   new_URL E d = Inl msg \<longrightarrow>
            handleWebDAV E request env =
              (Response (GenerateErrorHTML ''Internal Server Error'' msg) 500 html_headers,
               BUCKET env))"
  using assms
  by (auto simp: handleWebDAV_def dispatch_def handleCopy_def handleMove_def)

text \<open>
  C4, two instances: a COPY without the header, and a MOVE whose header is
  \<open>not a url\<close>.
\<close>

theorem destination_missing_or_invalid_witness:
  "(req_method (example_request ''COPY'' ''http://h/a/b.txt'' [] []) = ''COPY'' \<or>
    req_method (example_request ''COPY'' ''http://h/a/b.txt'' [] []) = ''MOVE'') \<and>
   headers_get (example_request ''COPY'' ''http://h/a/b.txt'' [] []) ''Destination'' = None \<and>
   handleWebDAV example_ambient (example_request ''COPY'' ''http://h/a/b.txt'' [] [])
     example_env =
     (Response (Text ''Bad Request: Destination header is missing'') 400 [],
      BUCKET example_env) \<and>
   (req_method (transfer_request ''MOVE'' ''http://h/a/b.txt'' ''not a url'') = ''COPY'' \<or>
    req_method (transfer_request ''MOVE'' ''http://h/a/b.txt'' ''not a url'') = ''MOVE'') \<and>
   headers_get (transfer_request ''MOVE'' ''http://h/a/b.txt'' ''not a url'') ''Destination'' =
     Some ''not a url'' \<and>
   ''not a url'' \<noteq> [] \<and>
   new_URL example_ambient ''not a url'' = Inl ''Invalid URL'' \<and>
   handleWebDAV example_ambient (transfer_request ''MOVE'' ''http://h/a/b.txt'' ''not a url'')
     example_env =
     (Response (GenerateErrorHTML ''Internal Server Error'' ''Invalid URL'') 500 html_headers,
      BUCKET example_env)"
proof -
  let ?copy = "example_request ''COPY'' ''http://h/a/b.txt'' [] []"
  let ?move = "transfer_request ''MOVE'' ''http://h/a/b.txt'' ''not a url''"
  have m1: "req_method ?copy = ''COPY'' \<or> req_method ?copy = ''MOVE''"
    by code_simp
  have h1: "headers_get ?copy ''Destination'' = None"
    by code_simp
  have m2: "req_method ?move = ''COPY'' \<or> req_method ?move = ''MOVE''"
    by code_simp
  have h2: "headers_get ?move ''Destination'' = Some ''not a url''"
    by code_simp
  have ne: "''not a url'' \<noteq> []"
    by simp
  have nu: "new_URL example_ambient ''not a url'' = Inl ''Invalid URL''"
    by code_simp
  have a: "handleWebDAV example_ambient ?copy example_env =
             (Response (Text ''Bad Request: Destination header is missing'') 400 [],
              BUCKET example_env)"
    by (rule destination_missing_or_invalid [OF m1, THEN conjunct1, THEN mp, OF disjI1 [OF h1]])
  have b: "handleWebDAV example_ambient ?move example_env =
             (Response (GenerateErrorHTML ''Internal Server Error'' ''Invalid URL'') 500
                html_headers, BUCKET example_env)"
    by (rule destination_missing_or_invalid [OF m2, THEN conjunct2, THEN spec, THEN spec,
               THEN mp, OF conjI [OF h2 conjI [OF ne nu]]])
  show ?thesis
    by (rule conjI [OF m1 conjI [OF h1 conjI [OF a conjI [OF m2 conjI [OF h2 conjI [OF ne
          conjI [OF nu b]]]]]]])
qed

text \<open>
  C4 as stated promises 400 for a \<open>Destination\<close> that is not a URL. A COPY whose
  header is \<open>not a url\<close> is answered 500.
\<close>

theorem destination_invalid_counterexample:
  "req_method (transfer_request ''COPY'' ''http://h/a/b.txt'' ''not a url'') = ''COPY'' \<and>
   headers_get (transfer_request ''COPY'' ''http://h/a/b.txt'' ''not a url'') ''Destination'' =
     Some ''not a url'' \<and>
   new_URL example_ambient ''not a url'' = Inl ''Invalid URL'' \<and>
   status (fst (handleWebDAV example_ambient
                  (transfer_request ''COPY'' ''http://h/a/b.txt'' ''not a url'') example_env)) =
     500 \<and>
   status (fst (handleWebDAV example_ambient
                  (transfer_request ''COPY'' ''http://h/a/b.txt'' ''not a url'') example_env)) \<noteq>
     400"
  by code_simp

text \<open>
  C7. For distinct keys \<open>A\<close> and \<open>B\<close> with an object at \<open>A\<close>, a COPY of
  \<open>A\<close> to \<open>B\<close> answered 201 leaves at \<open>B\<close> an object with the content, the
  HTTP metadata (so the content type) and the custom metadata of the object at \<open>A\<close>;
  the object at \<open>A\<close> is the one that was there, and so is every key other than \<open>B\<close>.
\<close>

theorem handleCopy_preserves:
  assumes "make_resource_path E request = A"
    and "headers_get request ''Destination'' = Some d"
    and "new_URL E d = Inr u"
    and "make_resource_path E (new_Request u) = B"
    and "A \<noteq> B"
    and "lookup bucket A = Some ob"
    and "handleCopy E request bucket = (Inr r, b')"
    and "status r = 201"
  shows "(\<exists>ob'. lookup b' B = Some ob' \<and> body ob' = body ob \<and>
               httpMetadata ob' = httpMetadata ob \<and> contentType_of ob' = contentType_of ob \<and>
               customMetadata ob' = customMetadata ob) \<and>
         lookup b' A = Some ob \<and>
         (\<forall>k. k \<noteq> B \<longrightarrow> lookup b' k = lookup bucket k)"
proof -
  from handleCopy_201 [OF assms(7,8)] assms(1-4,6)
  have put: "bucket_put bucket B (body ob)
               \<lparr>put_httpMetadata = httpMetadata ob, put_customMetadata = customMetadata ob\<rparr> =
               Inr b'"
    by (auto simp: get_ok)
  have written: "\<exists>ob'. lookup b' B = Some ob' \<and> body ob' = body ob \<and>
               httpMetadata ob' = httpMetadata ob \<and> contentType_of ob' = contentType_of ob \<and>
               customMetadata ob' = customMetadata ob"
    using lookup_put_same [OF put] by (simp add: contentType_of_def)
  have frame: "\<forall>k. k \<noteq> B \<longrightarrow> lookup b' k = lookup bucket k"
    using lookup_put_other [OF put] by simp
  have source: "lookup b' A = Some ob"
    using frame assms(5,6) by simp
  from written source frame show ?thesis
    by (intro conjI)
qed

text \<open>C7, an instance: COPY of \<open>a/b.txt\<close> to \<open>a/c.txt\<close>.\<close>

theorem handleCopy_preserves_witness:
  "make_resource_path example_ambient
     (transfer_request ''COPY'' ''http://h/a/b.txt'' ''http://h/a/c.txt'') = ''a/b.txt'' \<and>
   headers_get (transfer_request ''COPY'' ''http://h/a/b.txt'' ''http://h/a/c.txt'')
     ''Destination'' = Some ''http://h/a/c.txt'' \<and>
   new_URL example_ambient ''http://h/a/c.txt'' = Inr ''http://h/a/c.txt'' \<and>
   make_resource_path example_ambient (new_Request ''http://h/a/c.txt'') = ''a/c.txt'' \<and>
   ''a/b.txt'' \<noteq> ''a/c.txt'' \<and>
   lookup bucket_ab ''a/b.txt'' = Some object_ab \<and>
   fst (handleCopy example_ambient
          (transfer_request ''COPY'' ''http://h/a/b.txt'' ''http://h/a/c.txt'') bucket_ab) =
     Inr (Response (Text ''Created'') 201 []) \<and>
   (\<exists>ob'. lookup (snd (handleCopy example_ambient
                         (transfer_request ''COPY'' ''http://h/a/b.txt'' ''http://h/a/c.txt'')
                         bucket_ab)) ''a/c.txt'' = Some ob' \<and>
          body ob' = body object_ab \<and> httpMetadata ob' = httpMetadata object_ab \<and>
          contentType_of ob' = contentType_of object_ab \<and>
          customMetadata ob' = customMetadata object_ab) \<and>
   lookup (snd (handleCopy example_ambient
                  (transfer_request ''COPY'' ''http://h/a/b.txt'' ''http://h/a/c.txt'')
                  bucket_ab)) ''a/b.txt'' = Some object_ab"
proof -
  let ?req = "transfer_request ''COPY'' ''http://h/a/b.txt'' ''http://h/a/c.txt''"
  let ?b' = "snd (handleCopy example_ambient ?req bucket_ab)"
  have k: "make_resource_path example_ambient ?req = ''a/b.txt''"
    by code_simp
  have hd: "headers_get ?req ''Destination'' = Some ''http://h/a/c.txt''"
    by code_simp
  have nu: "new_URL example_ambient ''http://h/a/c.txt'' = Inr ''http://h/a/c.txt''"
    by code_simp
  have dest: "make_resource_path example_ambient (new_Request ''http://h/a/c.txt'') = ''a/c.txt''"
    by code_simp
  have ne: "''a/b.txt'' \<noteq> ''a/c.txt''"
    by simp
  have src: "lookup bucket_ab ''a/b.txt'' = Some object_ab"
    by code_simp
  have first: "fst (handleCopy example_ambient ?req bucket_ab) =
                 Inr (Response (Text ''Created'') 201 [])"
    by code_simp
  then have run: "handleCopy example_ambient ?req bucket_ab =
                    (Inr (Response (Text ''Created'') 201 []), ?b')"
    by (simp add: prod_eq_iff)
  have st: "status (Response (Text ''Created'') 201 []) = 201"
    by (simp add: Response_def)
  note inst = handleCopy_preserves [OF k hd nu dest ne src run st]
  show ?thesis
    by (rule conjI [OF k conjI [OF hd conjI [OF nu conjI [OF dest conjI [OF ne conjI [OF src
          conjI [OF first conjI [OF inst [THEN conjunct1]
            inst [THEN conjunct2, THEN conjunct1]]]]]]]]])
qed

subsection \<open>PROPFIND at depth 0\<close>

text \<open>
  The existence probe of \<open>handlePropfind\<close> is one \<open>list\<close> call with the resource
  path itself as the prefix. Its answer is not empty exactly when some stored key starts
  with the path.
\<close>

lemma map_filter_Nil_iff: "List.map_filter f xs = [] \<longleftrightarrow> (\<forall>x \<in> set xs. f x = None)"
  by (induction xs) (auto simp: List.map_filter_simps split: option.splits)

lemma take_one_Nil_iff: "take (Suc 0) xs = [] \<longleftrightarrow> xs = []"
  by (cases xs) auto

lemma probe_nonempty:
  assumes "bucket_list b \<lparr>prefix_opt = p, delimiter = d, maxKeys = Some 1\<rparr> = Inr r"
  shows "(length (delimitedPrefixes r) > 0 \<or> length (objects r) > 0) \<longleftrightarrow>
         (\<exists>ob \<in> set (stored b). prefix p (key ob))"
proof -
  let ?M = "filter (\<lambda>ob. prefix p (key ob)) (stored b)"
  let ?objs = "filter (\<lambda>ob. delimited p d (key ob) = None) ?M"
  let ?pfxs = "remdups (List.map_filter (\<lambda>ob. delimited p d (key ob)) ?M)"
  from assms have r: "r = \<lparr>objects = take 1 ?objs,
                            delimitedPrefixes = take (1 - length (take 1 ?objs)) ?pfxs\<rparr>"
    by (auto simp: bucket_list_def Let_def split: option.splits)
  show ?thesis
  proof (cases "?objs = []")
    case True
    then have "objects r = []" and "delimitedPrefixes r = take 1 ?pfxs"
      using r by simp_all
    moreover have "?pfxs = [] \<longleftrightarrow> ?M = []"
      using True by (auto simp: map_filter_Nil_iff filter_empty_conv)
    ultimately show ?thesis
      by (auto simp: take_one_Nil_iff filter_empty_conv)
  next
    case False
    then have "objects r \<noteq> []"
      using r by (simp add: take_one_Nil_iff)
    moreover from False have "?M \<noteq> []"
      by (auto simp: filter_empty_conv)
    ultimately show ?thesis
      by (auto simp: filter_empty_conv)
  qed
qed

lemma list_answers: "faults b (List (prefix_opt opts)) = None \<Longrightarrow> \<exists>r. bucket_list b opts = Inr r"
  by (simp add: bucket_list_def Let_def)

lemma propfind_probe_answer:
  assumes "make_resource_path E request = K"
    and "headers_get request ''Depth'' = Some ''0''"
    and "faults bucket (List K) = None"
  shows "handlePropfind E request bucket =
           (if \<exists>ob \<in> set (stored bucket). prefix K (key ob)
            then (Inr (Response (GeneratePropfindResponse K [synthesized_props E K]) 207
                         xml_headers), bucket)
            else (Inr (Response (Text ''Not Found'') 404 []), bucket))"
proof -
  obtain r where r: "bucket_list bucket
      \<lparr>prefix_opt = K, delimiter = Some (CHR ''/''), maxKeys = Some 1\<rparr> = Inr r"
    using list_answers [of bucket "\<lparr>prefix_opt = K, delimiter = Some (CHR ''/''), maxKeys = Some 1\<rparr>"]
      assms(3) by auto
  note probe = probe_nonempty [OF r]
  show ?thesis
    using assms(1,2) r probe
    by (simp add: handlePropfind_def or_else_def Let_def)
qed

lemma stored_put:
  "bucket_put b k c opts = Inr b' \<Longrightarrow> \<exists>ob \<in> set (stored b'). key ob = k"
  by (auto simp: bucket_put_def split: option.splits)

text \<open>
  C9. For every key \<open>K\<close>, PROPFIND with \<open>Depth: 0\<close> is answered 207 with one
  synthesized entry (\<open>resourcetype\<close> \<open>collection\<close>, content length \<open>0\<close>) whenever
  some stored key has \<open>K\<close> as a string prefix and the store answers the listing: no
  slash is appended to \<open>K\<close>, and neither the marker nor the object at \<open>K\<close> is looked
  up.
\<close>

theorem handlePropfind_prefix_probe:
  assumes "make_resource_path E request = K"
    and "headers_get request ''Depth'' = Some ''0''"
    and "faults bucket (List K) = None"
    and "\<exists>ob \<in> set (stored bucket). prefix K (key ob)"
  shows "handlePropfind E request bucket =
           (Inr (Response (GeneratePropfindResponse K [synthesized_props E K]) 207 xml_headers),
            bucket) \<and>
         resourcetype (synthesized_props E K) = ''collection'' \<and>
         getcontentlength (synthesized_props E K) = ''0''"
  using propfind_probe_answer [OF assms(1-3)] assms(4)
  by (simp add: synthesized_props_def)

text \<open>
  C9, two instances on a bucket that holds \<open>tabby.txt\<close> only: \<open>K = tab\<close>, a
  proper prefix of an unrelated key, and \<open>K = tabby.txt\<close>, a plain file.
\<close>

theorem handlePropfind_prefix_probe_witness:
  "make_resource_path example_ambient (propfind0_request ''http://h/tab'') = ''tab'' \<and>
   headers_get (propfind0_request ''http://h/tab'') ''Depth'' = Some ''0'' \<and>
   faults bucket_tabby (List ''tab'') = None \<and>
   map key (stored bucket_tabby) = [''tabby.txt''] \<and>
   prefix ''tab'' ''tabby.txt'' \<and>
   handlePropfind example_ambient (propfind0_request ''http://h/tab'') bucket_tabby =
     (Inr (Response (GeneratePropfindResponse ''tab'' [synthesized_props example_ambient ''tab''])
             207 xml_headers), bucket_tabby) \<and>
   resourcetype (synthesized_props example_ambient ''tab'') = ''collection'' \<and>
   getcontentlength (synthesized_props example_ambient ''tab'') = ''0'' \<and>
   make_resource_path example_ambient (propfind0_request ''http://h/tabby.txt'') = ''tabby.txt'' \<and>
   headers_get (propfind0_request ''http://h/tabby.txt'') ''Depth'' = Some ''0'' \<and>
   faults bucket_tabby (List ''tabby.txt'') = None \<and>
   prefix ''tabby.txt'' ''tabby.txt'' \<and>
   handlePropfind example_ambient (propfind0_request ''http://h/tabby.txt'') bucket_tabby =
     (Inr (Response
             (GeneratePropfindResponse ''tabby.txt''
                [synthesized_props example_ambient ''tabby.txt''])
             207 xml_headers), bucket_tabby)"
proof -
  let ?r1 = "propfind0_request ''http://h/tab''"
  let ?r2 = "propfind0_request ''http://h/tabby.txt''"
  have k1: "make_resource_path example_ambient ?r1 = ''tab''"
    by code_simp
  have d1: "headers_get ?r1 ''Depth'' = Some ''0''"
    by code_simp
  have f1: "faults bucket_tabby (List ''tab'') = None"
    by code_simp
  have keys: "map key (stored bucket_tabby) = [''tabby.txt'']"
    by code_simp
  have p1: "prefix ''tab'' ''tabby.txt''"
    by code_simp
  have e1: "\<exists>ob \<in> set (stored bucket_tabby). prefix ''tab'' (key ob)"
    by code_simp
  have k2: "make_resource_path example_ambient ?r2 = ''tabby.txt''"
    by code_simp
  have d2: "headers_get ?r2 ''Depth'' = Some ''0''"
    by code_simp
  have f2: "faults bucket_tabby (List ''tabby.txt'') = None"
    by code_simp
  have p2: "prefix ''tabby.txt'' ''tabby.txt''"
    by simp
  have e2: "\<exists>ob \<in> set (stored bucket_tabby). prefix ''tabby.txt'' (key ob)"
    by code_simp
  note i1 = handlePropfind_prefix_probe [OF k1 d1 f1 e1]
  note i2 = handlePropfind_prefix_probe [OF k2 d2 f2 e2, THEN conjunct1]
  show ?thesis
    by (rule conjI [OF k1 conjI [OF d1 conjI [OF f1 conjI [OF keys conjI [OF p1 conjI [OF
          i1 [THEN conjunct1] conjI [OF i1 [THEN conjunct2, THEN conjunct1] conjI [OF
          i1 [THEN conjunct2, THEN conjunct2] conjI [OF k2 conjI [OF d2 conjI [OF f2
          conjI [OF p2 i2]]]]]]]]]]]])
qed

text \<open>
  Where no stored key starts with \<open>K\<close>, the probe does what the comments of
  \<open>handlePropfind\<close> describe: PROPFIND with \<open>Depth: 0\<close> is answered 404; after
  one PUT of a child object under \<open>K\<close> (answered 201), the same PROPFIND is answered
  207 with a multistatus body of exactly one synthesized collection entry for \<open>K\<close>.
  The store is taken to answer the listing and to accept the \<open>put\<close>.
\<close>

lemma propfind_missing_then_child:
  assumes "make_resource_path E request = K"
    and "headers_get request ''Depth'' = Some ''0''"
    and "faults bucket (List K) = None"
    and "\<forall>ob \<in> set (stored bucket). \<not> prefix K (key ob)"
    and "make_resource_path E put_request = (if K = [] then child else K @ ''/'' @ child)"
    and "faults bucket (Put (make_resource_path E put_request)) = None"
  shows "handlePropfind E request bucket = (Inr (Response (Text ''Not Found'') 404 []), bucket) \<and>
         fst (handlePut E put_request bucket) = Inr (Response (Text ''Created'') 201 []) \<and>
         handlePropfind E request (snd (handlePut E put_request bucket)) =
           (Inr (Response (GeneratePropfindResponse K [synthesized_props E K]) 207 xml_headers),
            snd (handlePut E put_request bucket))"
proof -
  let ?kc = "make_resource_path E put_request"
  let ?opts = "\<lparr>put_httpMetadata =
                   Some \<lparr>contentType =
                           Some (or_else (headers_get put_request ''Content-Type'')
                                   ''application/octet-stream'')\<rparr>,
                 put_customMetadata = []\<rparr>"
  have before: "handlePropfind E request bucket =
                  (Inr (Response (Text ''Not Found'') 404 []), bucket)"
    using propfind_probe_answer [OF assms(1-3)] assms(4) by simp
  obtain b1 where put: "bucket_put bucket ?kc (req_body put_request) ?opts = Inr b1"
    using assms(6) by (simp add: bucket_put_def)
  have run: "handlePut E put_request bucket = (Inr (Response (Text ''Created'') 201 []), b1)"
    using put by (simp add: handlePut_def)
  have under: "prefix K ?kc"
    using assms(5) by simp
  have "\<exists>ob \<in> set (stored b1). prefix K (key ob)"
    using stored_put [OF put] under by metis
  moreover have "faults b1 (List K) = None"
    using faults_put [OF put] assms(3) by simp
  ultimately have after: "handlePropfind E request b1 =
      (Inr (Response (GeneratePropfindResponse K [synthesized_props E K]) 207 xml_headers), b1)"
    using propfind_probe_answer [OF assms(1,2), of b1] by simp
  from before run after show ?thesis
    by simp
qed

text \<open>An instance: \<open>K = c\<close> on a bucket that holds \<open>a/b.txt\<close>, then \<open>PUT /c/d.txt\<close>.\<close>

lemma propfind_missing_then_child_example:
  "make_resource_path example_ambient (propfind0_request ''http://h/c'') = ''c'' \<and>
   headers_get (propfind0_request ''http://h/c'') ''Depth'' = Some ''0'' \<and>
   faults bucket_ab (List ''c'') = None \<and>
   map key (stored bucket_ab) = [''a/b.txt''] \<and>
   \<not> prefix ''c'' ''a/b.txt'' \<and>
   make_resource_path example_ambient (example_request ''PUT'' ''http://h/c/d.txt'' [] ''x'') =
     ''c/d.txt'' \<and>
   faults bucket_ab (Put ''c/d.txt'') = None \<and>
   handlePropfind example_ambient (propfind0_request ''http://h/c'') bucket_ab =
     (Inr (Response (Text ''Not Found'') 404 []), bucket_ab) \<and>
   fst (handlePut example_ambient (example_request ''PUT'' ''http://h/c/d.txt'' [] ''x'') bucket_ab) =
     Inr (Response (Text ''Created'') 201 []) \<and>
   handlePropfind example_ambient (propfind0_request ''http://h/c'')
     (snd (handlePut example_ambient (example_request ''PUT'' ''http://h/c/d.txt'' [] ''x'')
             bucket_ab)) =
     (Inr (Response (GeneratePropfindResponse ''c'' [synthesized_props example_ambient ''c''])
             207 xml_headers),
      snd (handlePut example_ambient (example_request ''PUT'' ''http://h/c/d.txt'' [] ''x'')
             bucket_ab))"
proof -
  let ?r = "propfind0_request ''http://h/c''"
  let ?put = "example_request ''PUT'' ''http://h/c/d.txt'' [] ''x''"
  have k: "make_resource_path example_ambient ?r = ''c''"
    by code_simp
  have d: "headers_get ?r ''Depth'' = Some ''0''"
    by code_simp
  have f: "faults bucket_ab (List ''c'') = None"
    by code_simp
  have keys: "map key (stored bucket_ab) = [''a/b.txt'']"
    by code_simp
  have np: "\<not> prefix ''c'' ''a/b.txt''"
    by code_simp
  have none: "\<forall>ob \<in> set (stored bucket_ab). \<not> prefix ''c'' (key ob)"
    by code_simp
  have kc: "make_resource_path example_ambient ?put = ''c/d.txt''"
    by code_simp
  then have kc': "make_resource_path example_ambient ?put =
                    (if ''c'' = [] then ''d.txt'' else ''c'' @ ''/'' @ ''d.txt'')"
    by simp
  have fp: "faults bucket_ab (Put ''c/d.txt'') = None"
    by code_simp
  then have fp': "faults bucket_ab (Put (make_resource_path example_ambient ?put)) = None"
    using kc by simp
  note inst = propfind_missing_then_child [OF k d f none kc' fp']
  show ?thesis
    by (rule conjI [OF k conjI [OF d conjI [OF f conjI [OF keys conjI [OF np conjI [OF kc
          conjI [OF fp inst]]]]]]])
qed

text \<open>
  C3. The claim: for every key with no collection marker and no descendant objects,
  PROPFIND with \<open>Depth: 0\<close> is answered 404. The comments of \<open>handlePropfind\<close>
  say the same of its two branches: 207 when the folder exists, explicitly or
  implicitly, and 404 when there is no child resource at all. The code answers otherwise
  on the two inputs evaluated here. The bucket holds \<open>tabby.txt\<close> only: the key
  \<open>tab\<close> has no marker and nothing below \<open>tab/\<close>, and neither has the key
  \<open>tabby.txt\<close> of the file itself; for both, PROPFIND with \<open>Depth: 0\<close> is
  answered 207 with a synthesized collection entry.
\<close>

theorem handlePropfind_depth0_phantom_collection:
  "map key (stored bucket_tabby) = [''tabby.txt''] \<and>
   make_resource_path example_ambient (propfind0_request ''http://h/tab'') = ''tab'' \<and>
   headers_get (propfind0_request ''http://h/tab'') ''Depth'' = Some ''0'' \<and>
   markerFileKey ''tab'' = ''tab/_$folder$'' \<and>
   \<not> prefix ''tab/'' ''tabby.txt'' \<and>
   fst (handlePropfind example_ambient (propfind0_request ''http://h/tab'') bucket_tabby) =
     Inr (Response (GeneratePropfindResponse ''tab'' [synthesized_props example_ambient ''tab''])
            207 xml_headers) \<and>
   make_resource_path example_ambient (propfind0_request ''http://h/tabby.txt'') = ''tabby.txt'' \<and>
   headers_get (propfind0_request ''http://h/tabby.txt'') ''Depth'' = Some ''0'' \<and>
   markerFileKey ''tabby.txt'' = ''tabby.txt/_$folder$'' \<and>
   \<not> prefix ''tabby.txt/'' ''tabby.txt'' \<and>
   fst (handlePropfind example_ambient (propfind0_request ''http://h/tabby.txt'') bucket_tabby) =
     Inr (Response
            (GeneratePropfindResponse ''tabby.txt''
               [synthesized_props example_ambient ''tabby.txt''])
            207 xml_headers) \<and>
   status (Response
             (GeneratePropfindResponse ''tab'' [synthesized_props example_ambient ''tab''])
             207 xml_headers) \<noteq> 404"
  by code_simp

subsection \<open>MOVE: what is stored and what is answered\<close>

text \<open>
  The last statement of \<open>handleMove\<close> constructs a 204 answer with the body
  \<open>No Content\<close>. The platform refuses it, so no MOVE is ever answered 204: a MOVE
  whose three store calls are accepted has moved the object and is answered 500 by the
  handler's own \<open>catch\<close>. The store is then as a move leaves it: nothing at the
  source, the source's content at a destination other than the source.
\<close>

lemma new_Response_no_content:
  "new_Response (Text ''No Content'') 204 [] = Inl null_body_TypeError"
  by (simp add: new_Response_def null_body_status_def)

lemma handleMove_never_204: "fst (handleMove E request bucket) = Inr r \<Longrightarrow> status r \<noteq> 204"
  by (auto simp: handleMove_def Let_def Response_def new_Response_no_content
           split: option.splits sum.splits if_splits)

lemma handleMove_carried_out:
  assumes "make_resource_path E request = A"
    and "headers_get request ''Destination'' = Some d" and "d \<noteq> []"
    and "new_URL E d = Inr u"
    and "make_resource_path E (new_Request u) = B"
    and "lookup bucket A = Some ob"
    and "faults bucket (Get A) = None"
    and "faults bucket (Put B) = None"
    and "faults bucket (Delete A) = None"
  shows "fst (handleMove E request bucket) =
           Inr (Response (GenerateErrorHTML ''Error moving file'' null_body_TypeError) 500
                  html_headers) \<and>
         faults (snd (handleMove E request bucket)) = faults bucket \<and>
         lookup (snd (handleMove E request bucket)) A = None \<and>
         (A \<noteq> B \<longrightarrow>
            (\<exists>ob'. lookup (snd (handleMove E request bucket)) B = Some ob' \<and>
                   body ob' = body ob))"
proof -
  obtain b1 where put: "bucket_put bucket B (body ob)
               \<lparr>put_httpMetadata = httpMetadata ob, put_customMetadata = customMetadata ob\<rparr> =
               Inr b1"
    using assms(8) by (simp add: bucket_put_def)
  have "faults b1 (Delete A) = None"
    using faults_put [OF put] assms(9) by simp
  then obtain b2 where del: "bucket_delete b1 A = Inr b2"
    by (simp add: bucket_delete_def)
  have run: "handleMove E request bucket =
               (Inr (Response (GenerateErrorHTML ''Error moving file'' null_body_TypeError) 500
                       html_headers), b2)"
    using assms(1-7) put del
    by (simp add: handleMove_def bucket_get_def new_Response_no_content)
  have same: "faults b2 = faults bucket"
    using faults_put [OF put] faults_delete [OF del] by simp
  have gone: "lookup b2 A = None"
    using del by (rule lookup_delete_same)
  have kept: "A \<noteq> B \<longrightarrow> (\<exists>ob'. lookup b2 B = Some ob' \<and> body ob' = body ob)"
    using lookup_put_same [OF put] lookup_delete_other [OF del, of B] by auto
  from run same gone kept show ?thesis
    by simp
qed

text \<open>The GETs after such a MOVE: 404 for the source, 200 with the content for the destination.\<close>

lemma handleMove_then_gets:
  assumes "make_resource_path E request = A"
    and "headers_get request ''Destination'' = Some d" and "d \<noteq> []"
    and "new_URL E d = Inr u"
    and "make_resource_path E (new_Request u) = B"
    and "lookup bucket A = Some ob"
    and "faults bucket (Get A) = None"
    and "faults bucket (Put B) = None"
    and "faults bucket (Delete A) = None"
    and "make_resource_path E getA = A" and "\<not> endsWith (url getA) ''/''"
    and "make_resource_path E getB = B" and "\<not> endsWith (url getB) ''/''"
    and "faults bucket (Get B) = None"
  shows "fst (handleGet E getA (snd (handleMove E request bucket))) =
           Inr (Response (Text ''Not Found'') 404 []) \<and>
         (A \<noteq> B \<longrightarrow>
            (\<exists>hs. fst (handleGet E getB (snd (handleMove E request bucket))) =
                    Inr (Response (Text (body ob)) 200 hs)))"
proof -
  let ?b = "snd (handleMove E request bucket)"
  note out = handleMove_carried_out [OF assms(1-9)]
  have fa: "faults ?b (Get A) = None" and fb: "faults ?b (Get B) = None"
    using out assms(7,14) by simp_all
  have gone: "lookup ?b A = None"
    using out by simp
  have first: "fst (handleGet E getA ?b) = Inr (Response (Text ''Not Found'') 404 [])"
    using assms(10,11) fa gone by (simp add: handleGet_file handleFile_absent)
  have second: "A \<noteq> B \<longrightarrow>
            (\<exists>hs. fst (handleGet E getB ?b) = Inr (Response (Text (body ob)) 200 hs))"
  proof
    assume "A \<noteq> B"
    then obtain ob' where "lookup ?b B = Some ob'" and "body ob' = body ob"
      using out by blast
    then have "fst (handleGet E getB ?b) =
                 Inr (Response (Text (body ob)) 200 (object_headers E ob'))"
      using assms(12,13) fb by (simp add: handleGet_file handleFile_present)
    then show "\<exists>hs. fst (handleGet E getB ?b) = Inr (Response (Text (body ob)) 200 hs)"
      by blast
  qed
  from first second show ?thesis
    by simp
qed


text \<open>
  C10. The claim: a MOVE whose destination resolves to the source key \<open>A\<close> is
  answered 204 and leaves no object at \<open>A\<close>. Evaluated here: \<open>MOVE /a/b.txt\<close> with
  destination \<open>/a/b.txt\<close> on the bucket that holds \<open>a/b.txt\<close> is answered 500, not
  204; the object is written back and then deleted, so nothing is stored afterwards and
  \<open>GET /a/b.txt\<close> is answered 404.
\<close>

theorem handleMove_onto_itself_answers_500:
  "make_resource_path example_ambient
     (transfer_request ''MOVE'' ''http://h/a/b.txt'' ''http://h/a/b.txt'') = ''a/b.txt'' \<and>
   make_resource_path example_ambient (new_Request ''http://h/a/b.txt'') = ''a/b.txt'' \<and>
   lookup bucket_ab ''a/b.txt'' = Some object_ab \<and>
   fst (handleMove example_ambient
          (transfer_request ''MOVE'' ''http://h/a/b.txt'' ''http://h/a/b.txt'') bucket_ab) =
     Inr (Response (GenerateErrorHTML ''Error moving file'' null_body_TypeError) 500
            html_headers) \<and>
   status (Response (GenerateErrorHTML ''Error moving file'' null_body_TypeError) 500
             html_headers) \<noteq> 204 \<and>
   stored (snd (handleMove example_ambient
                  (transfer_request ''MOVE'' ''http://h/a/b.txt'' ''http://h/a/b.txt'')
                  bucket_ab)) = [] \<and>
   fst (handleGet example_ambient (get_request ''http://h/a/b.txt'')
          (snd (handleMove example_ambient
                  (transfer_request ''MOVE'' ''http://h/a/b.txt'' ''http://h/a/b.txt'')
                  bucket_ab))) =
     Inr (Response (Text ''Not Found'') 404 [])"
  by code_simp

subsection \<open>GET of a collection\<close>

text \<open>
  For a URL that ends in a slash \<open>handleGet\<close> calls \<open>handleDirectory\<close>. When the
  listing fails, its \<open>catch\<close> answers 500. When the listing succeeds, the title of
  the page reads \<open>bucketName\<close>: the \<open>ReferenceError\<close> escapes the handler and the
  dispatcher answers 500. Such a GET is never answered 200, whatever the listing yields.
\<close>

lemma handleGet_directory_outcome:
  assumes "endsWith (url request) ''/''" and "make_resource_path E request = K"
  shows "handleGet E request bucket =
           (case listAll bucket K of
              Inl err \<Rightarrow>
                (Inr (Response (GenerateErrorHTML ''Error listing directory contents'' err) 500
                        html_headers), bucket)
            | Inr obs \<Rightarrow> (Inl ''bucketName is not defined'', bucket))"
  using assms
  by (simp add: handleGet_def handleDirectory_def bucketName_def split: sum.splits)

lemma handleWebDAV_directory_500:
  assumes "req_method request = ''GET''" and "endsWith (url request) ''/''"
  shows "status (fst (handleWebDAV E request env)) = 500 \<and>
         snd (handleWebDAV E request env) = BUCKET env"
  using assms handleGet_directory_outcome [OF assms(2) refl, of E "BUCKET env"]
  by (simp add: handleWebDAV_def dispatch_def Response_def split: sum.splits)

text \<open>
  C1. The claim: a GET whose URL ends in a slash and whose key is a collection is
  answered 200 with the HTML page of the collection's entries, the parent link first when
  the key is not the root. Evaluated here on the bucket that holds \<open>a/b.txt\<close>:
  \<open>GET /a/\<close>, whose listing succeeds with the one entry \<open>a/b.txt\<close>, and
  \<open>GET /\<close> are both answered 500 with the message of the \<open>ReferenceError\<close>.
\<close>

theorem handleGet_directory_answers_500:
  "map key (stored bucket_ab) = [''a/b.txt''] \<and>
   req_method (get_request ''http://h/a/'') = ''GET'' \<and>
   endsWith (url (get_request ''http://h/a/'')) ''/'' \<and>
   make_resource_path example_ambient (get_request ''http://h/a/'') = ''a'' \<and>
   listAll bucket_ab ''a'' = Inr [object_ab] \<and>
   fst (handleGet example_ambient (get_request ''http://h/a/'') bucket_ab) =
     Inl ''bucketName is not defined'' \<and>
   fst (handleWebDAV example_ambient (get_request ''http://h/a/'') example_env) =
     Response (GenerateErrorHTML ''Internal Server Error'' ''bucketName is not defined'') 500
       html_headers \<and>
   status (Response (GenerateErrorHTML ''Internal Server Error'' ''bucketName is not defined'')
             500 html_headers) \<noteq> 200 \<and>
   endsWith (url (get_request ''http://h/'')) ''/'' \<and>
   make_resource_path example_ambient (get_request ''http://h/'') = [] \<and>
   fst (handleWebDAV example_ambient (get_request ''http://h/'') example_env) =
     Response (GenerateErrorHTML ''Internal Server Error'' ''bucketName is not defined'') 500
       html_headers"
  by code_simp

end
